theory Spec2Isabelle
  imports Main "HOL-Library.Word"
begin

unbundle bit_operations_syntax

section \<open>Data model of \<open>GetIP/main.cpp\<close>\<close>

text \<open>
  \<open>struct NetworkInterface\<close>. The source never assigns \<open>has_internet\<close>; the field is
  \<open>None\<close> as long as nothing has been stored in it.
\<close>

record NetworkInterface =
  name :: string
  ip :: string
  mac :: string
  has_internet :: "bool option"

text \<open>
  The part of \<open>struct sockaddr\<close> the program reads: the address family and, through the
  cast to \<open>sockaddr_in\<close>, the four bytes of \<open>sin_addr\<close> in memory order.
\<close>

type_synonym in_addr = "8 word \<times> 8 word \<times> 8 word \<times> 8 word"

record sockaddr =
  sa_family :: "16 word"
  sin_addr :: in_addr

text \<open>
  One node of the list that \<open>getifaddrs\<close> builds; the \<open>ifa_next\<close> chain is the HOL list,
  a null \<open>ifa_addr\<close> is \<open>None\<close>.
\<close>

record ifaddrs =
  ifa_name :: string
  ifa_flags :: "32 word"
  ifa_addr :: "sockaddr option"

subsection \<open>Constants of the platform headers (Linux values)\<close>

definition AF_INET :: "16 word" where
  "AF_INET = 2"

definition IFF_LOOPBACK :: "32 word" where
  "IFF_LOOPBACK = 0x8"

definition IFNAMSIZ :: nat where
  "IFNAMSIZ = 16"

definition INET_ADDRSTRLEN :: nat where
  "INET_ADDRSTRLEN = 16"

definition O_RDWR :: "32 word" where
  "O_RDWR = 0x2"

definition O_NONBLOCK :: "32 word" where
  "O_NONBLOCK = 0x800"

definition EBADF :: int where
  "EBADF = 9"

definition EMFILE :: int where
  "EMFILE = 24"

definition EINPROGRESS :: int where
  "EINPROGRESS = 115"

definition newline :: string where
  "newline = [CHR 0x0A]"

section \<open>The operating system as explicit state\<close>

text \<open>
  What the kernel answers for the socket made by the \<open>k\<close>-th call of \<open>socket\<close>:
  \<^item> \<open>create_error\<close>: \<open>Some e\<close> when that call of \<open>socket\<close> fails with \<open>errno = e\<close>;
  \<^item> \<open>hwaddr_reply\<close>: the \<open>SIOCGIFHWADDR\<close> request for an interface name, either an
    \<open>errno\<close> or the bytes of \<open>ifr_hwaddr.sa_data\<close>;
  \<^item> \<open>connect_reply\<close>: the return value of \<open>connect\<close> and the \<open>errno\<close> it leaves when
    that value is negative;
  \<^item> \<open>select_reply\<close>: for a timeout in seconds, the return value of \<open>select\<close> on the
    write set (positive: writable within the timeout, \<open>0\<close>: timed out, negative: the wait
    itself failed) and the \<open>errno\<close> of a failure;
  \<^item> \<open>so_error\<close>: the pending error that \<open>SO_ERROR\<close> reports.
\<close>

record sock_fate =
  create_error :: "int option"
  hwaddr_reply :: "string \<Rightarrow> int + (nat \<Rightarrow> 8 word)"
  connect_reply :: "int \<times> int"
  select_reply :: "int \<Rightarrow> int \<times> int"
  so_error :: int

text \<open>
  The state of the process and of its environment. \<open>getifaddrs_reply\<close> is what
  \<open>getifaddrs\<close> yields (an \<open>errno\<close> when it returns \<open>-1\<close>), \<open>inet_pton_reply\<close> the return
  value of \<open>inet_pton\<close>. \<open>fd_table\<close> maps every open descriptor to the serial number of
  the open file behind it (for a socket, the number of the \<open>socket\<close> call that made it),
  \<open>sock_calls\<close> counts the calls of \<open>socket\<close> so far, \<open>cerr\<close> is everything written to
  standard error.
\<close>

record os_state =
  getifaddrs_reply :: "int + ifaddrs list"
  inet_pton_reply :: int
  strerror :: "int \<Rightarrow> string"
  fate :: "nat \<Rightarrow> sock_fate"
  sock_calls :: nat
  fd_table :: "int \<rightharpoonup> nat"
  fd_limit :: nat
  status_flags :: "int \<Rightarrow> 32 word"
  errno :: int
  cerr :: string

text \<open>
  \<open>socket(AF_INET, type, 0)\<close>, for both socket types the program asks for: it fails when
  the kernel refuses, or when no descriptor below the limit of the process is free;
  otherwise it returns the lowest free descriptor.
\<close>

definition socket_call :: "os_state \<Rightarrow> int \<times> os_state" where
  "socket_call w =
     (let k = sock_calls w; w1 = w\<lparr>sock_calls := Suc k\<rparr> in
      case create_error (fate w k) of
        Some e \<Rightarrow> (- 1, w1\<lparr>errno := e\<rparr>)
      | None \<Rightarrow>
          (case find (\<lambda>fd. fd_table w fd = None) (map int [0..<fd_limit w]) of
             None \<Rightarrow> (- 1, w1\<lparr>errno := EMFILE\<rparr>)
           | Some fd \<Rightarrow>
               (fd, w1\<lparr>fd_table := (fd_table w)(fd \<mapsto> k),
                       status_flags := (status_flags w)(fd := O_RDWR)\<rparr>)))"

definition close_call :: "int \<Rightarrow> os_state \<Rightarrow> os_state" where
  "close_call fd w =
     (case fd_table w fd of
        None \<Rightarrow> w\<lparr>errno := EBADF\<rparr>
      | Some k \<Rightarrow> w\<lparr>fd_table := (fd_table w)(fd := None)\<rparr>)"

text \<open>\<open>ioctl(fd, SIOCGIFHWADDR, &ifr)\<close>: \<open>Some sa_data\<close> when it returns \<open>0\<close>.\<close>

definition ioctl_SIOCGIFHWADDR ::
  "int \<Rightarrow> string \<Rightarrow> os_state \<Rightarrow> (nat \<Rightarrow> 8 word) option \<times> os_state" where
  "ioctl_SIOCGIFHWADDR fd ifr_name w =
     (case fd_table w fd of
        None \<Rightarrow> (None, w\<lparr>errno := EBADF\<rparr>)
      | Some k \<Rightarrow>
          (case hwaddr_reply (fate w k) ifr_name of
             Inl e \<Rightarrow> (None, w\<lparr>errno := e\<rparr>)
           | Inr sa_data \<Rightarrow> (Some sa_data, w)))"

text \<open>\<open>fcntl(fd, F_SETFL, fcntl(fd, F_GETFL, 0) | O_NONBLOCK)\<close>.\<close>

definition fcntl_GETFL :: "int \<Rightarrow> os_state \<Rightarrow> 32 word" where
  "fcntl_GETFL fd w = (case fd_table w fd of None \<Rightarrow> - 1 | Some k \<Rightarrow> status_flags w fd)"

definition fcntl_SETFL :: "int \<Rightarrow> 32 word \<Rightarrow> os_state \<Rightarrow> os_state" where
  "fcntl_SETFL fd fl w =
     (case fd_table w fd of
        None \<Rightarrow> w\<lparr>errno := EBADF\<rparr>
      | Some k \<Rightarrow> w\<lparr>status_flags := (status_flags w)(fd := fl)\<rparr>)"

definition connect_call :: "int \<Rightarrow> os_state \<Rightarrow> int \<times> os_state" where
  "connect_call fd w =
     (case fd_table w fd of
        None \<Rightarrow> (- 1, w\<lparr>errno := EBADF\<rparr>)
      | Some k \<Rightarrow>
          (let (r, e) = connect_reply (fate w k)
           in if r < 0 then (r, w\<lparr>errno := e\<rparr>) else (r, w)))"

definition select_call :: "int \<Rightarrow> int \<Rightarrow> os_state \<Rightarrow> int \<times> os_state" where
  "select_call fd timeout w =
     (case fd_table w fd of
        None \<Rightarrow> (- 1, w\<lparr>errno := EBADF\<rparr>)
      | Some k \<Rightarrow>
          (let (r, e) = select_reply (fate w k) timeout
           in if r < 0 then (r, w\<lparr>errno := e\<rparr>) else (r, w)))"

text \<open>
  \<open>getsockopt(fd, SOL_SOCKET, SO_ERROR, &error, &len)\<close>: the value stored in \<open>error\<close>,
  \<open>None\<close> when the call fails and stores nothing.
\<close>

definition getsockopt_SO_ERROR :: "int \<Rightarrow> os_state \<Rightarrow> int option" where
  "getsockopt_SO_ERROR fd w =
     (case fd_table w fd of None \<Rightarrow> None | Some k \<Rightarrow> Some (so_error (fate w k)))"

section \<open>Formatting\<close>

text \<open>\<open>%02x\<close> applied to an \<open>unsigned char\<close>: two lowercase hexadecimal digits.\<close>

definition hex_digit :: "nat \<Rightarrow> char" where
  "hex_digit n = ''0123456789abcdef'' ! (n mod 16)"

definition hex02 :: "8 word \<Rightarrow> string" where
  "hex02 b = [hex_digit (unat b div 16), hex_digit (unat b mod 16)]"

text \<open>
  \<open>snprintf(macBuffer, sizeof(macBuffer), "%02x:%02x:%02x:%02x:%02x:%02x", mac[0], ...,
  mac[5])\<close> with \<open>char macBuffer[18]\<close>: at most 17 characters are stored before the
  terminating zero.
\<close>

definition snprintf_mac :: "nat \<Rightarrow> (nat \<Rightarrow> 8 word) \<Rightarrow> string" where
  "snprintf_mac bufsz m =
     take (bufsz - 1)
       (hex02 (m 0) @ '':'' @ hex02 (m 1) @ '':'' @ hex02 (m 2) @ '':'' @
        hex02 (m 3) @ '':'' @ hex02 (m 4) @ '':'' @ hex02 (m 5))"

text \<open>
  \<open>%d\<close> applied to a byte, and \<open>inet_ntop(AF_INET, ..., ipBuffer, INET_ADDRSTRLEN)\<close>:
  dotted decimal. The result always fits the buffer (lemma \<open>inet_ntop_fits\<close>), so the
  call cannot fail for lack of space.
\<close>

fun decimal :: "nat \<Rightarrow> string" where
  "decimal n =
     (if n < 10 then [''0123456789'' ! n]
      else decimal (n div 10) @ [''0123456789'' ! (n mod 10)])"

declare decimal.simps [simp del]

definition inet_ntop :: "in_addr \<Rightarrow> string" where
  "inet_ntop a =
     (case a of (b0, b1, b2, b3) \<Rightarrow>
        decimal (unat b0) @ ''.'' @ decimal (unat b1) @ ''.'' @
        decimal (unat b2) @ ''.'' @ decimal (unat b3))"

text \<open>
  \<open>strncpy(ifr.ifr_name, iface.name.c_str(), IFNAMSIZ-1)\<close>: the name the request
  carries is the first \<open>IFNAMSIZ - 1\<close> characters of the interface name.
\<close>

definition strncpy :: "string \<Rightarrow> nat \<Rightarrow> string" where
  "strncpy src n = take n src"

section \<open>\<open>GetNetworkInfo\<close>\<close>

text \<open>The test at the head of the loop body: \<open>!ifa->ifa_addr || ifa->ifa_flags & IFF_LOOPBACK\<close>.\<close>

definition skipped :: "ifaddrs \<Rightarrow> bool" where
  "skipped ifa = (ifa_addr ifa = None \<or> ifa_flags ifa AND IFF_LOOPBACK \<noteq> 0)"

text \<open>One iteration of the \<open>for\<close> loop over the list of \<open>getifaddrs\<close>.\<close>

definition GetNetworkInfo_body ::
  "ifaddrs \<Rightarrow> NetworkInterface list \<Rightarrow> os_state \<Rightarrow> NetworkInterface list \<times> os_state" where
  "GetNetworkInfo_body ifa interfaces w =
     (case ifa_addr ifa of
        None \<Rightarrow> (interfaces, w)
      | Some addr \<Rightarrow>
          if ifa_flags ifa AND IFF_LOOPBACK \<noteq> 0 then (interfaces, w)
          else
            let iface0 = \<lparr>name = ifa_name ifa, ip = [], mac = [], has_internet = None\<rparr>;
                iface1 = (if sa_family addr = AF_INET
                          then iface0\<lparr>ip := inet_ntop (sin_addr addr)\<rparr> else iface0);
                (sockfd, w1) = socket_call w;
                (iface2, w2) =
                  (if sockfd \<ge> 0 then
                     let ifr_name = strncpy (name iface1) (IFNAMSIZ - 1);
                         (r, w') = ioctl_SIOCGIFHWADDR sockfd ifr_name w1;
                         iface' = (case r of
                                     Some sa_data \<Rightarrow> iface1\<lparr>mac := snprintf_mac 18 sa_data\<rparr>
                                   | None \<Rightarrow> iface1)
                     in (iface', close_call sockfd w')
                   else (iface1, w1))
            in if ip iface2 \<noteq> [] \<and> mac iface2 \<noteq> []
               then (interfaces @ [iface2], w2) else (interfaces, w2))"

fun GetNetworkInfo_loop ::
  "ifaddrs list \<Rightarrow> NetworkInterface list \<Rightarrow> os_state \<Rightarrow> NetworkInterface list \<times> os_state" where
  "GetNetworkInfo_loop [] interfaces w = (interfaces, w)"
| "GetNetworkInfo_loop (ifa # rest) interfaces w =
     (case GetNetworkInfo_body ifa interfaces w of
        (interfaces', w') \<Rightarrow> GetNetworkInfo_loop rest interfaces' w')"

definition GetNetworkInfo :: "os_state \<Rightarrow> NetworkInterface list \<times> os_state" where
  "GetNetworkInfo w =
     (case getifaddrs_reply w of
        Inl e \<Rightarrow>
          ([], w\<lparr>errno := e,
                 cerr := cerr w @ ''Error: getifaddrs() failed ('' @ strerror w e @ '')'' @ newline\<rparr>)
      | Inr ifaddr \<Rightarrow> GetNetworkInfo_loop ifaddr [] w)"

section \<open>\<open>CheckInternetConnection\<close>\<close>

definition CheckInternetConnection :: "int \<Rightarrow> os_state \<Rightarrow> bool \<times> os_state" where
  "CheckInternetConnection timeout w =
     (let (sockfd, w1) = socket_call w in
      if sockfd < 0 then
        (False, w1\<lparr>cerr := cerr w1 @ ''Error: socket creation failed ('' @
                                  strerror w1 (errno w1) @ '')'' @ newline\<rparr>)
      else if inet_pton_reply w1 \<le> 0 then
        (False, close_call sockfd (w1\<lparr>cerr := cerr w1 @ ''Error: invalid address'' @ newline\<rparr>))
      else
        let w2 = fcntl_SETFL sockfd (fcntl_GETFL sockfd w1 OR O_NONBLOCK) w1;
            (c, w3) = connect_call sockfd w2
        in if c < 0 \<and> errno w3 \<noteq> EINPROGRESS then (False, close_call sockfd w3)
           else
             let (ret, w4) = select_call sockfd timeout w3;
                 error = (case getsockopt_SO_ERROR sockfd w4 of Some e \<Rightarrow> e | None \<Rightarrow> 0);
                 w5 = close_call sockfd w4
             in (ret > 0 \<and> error = 0, w5))"

text \<open>The operand of the last output statement of \<open>main\<close>.\<close>

definition render_internet :: "bool \<Rightarrow> string" where
  "render_internet hasInternet = (if hasInternet then ''Available'' else ''Unavailable'')"

section \<open>Properties of the result\<close>

text \<open>
  The shape of a hardware address: \<open>hex_pairs_joined n s\<close> holds when \<open>s\<close> is \<open>n\<close> pairs
  of lowercase hexadecimal digits joined by colons.
\<close>

definition lower_hex_digit :: "char \<Rightarrow> bool" where
  "lower_hex_digit c = (c \<in> set ''0123456789abcdef'')"

fun hex_pairs_joined :: "nat \<Rightarrow> string \<Rightarrow> bool" where
  "hex_pairs_joined (Suc 0) [a, b] = (lower_hex_digit a \<and> lower_hex_digit b)"
| "hex_pairs_joined (Suc (Suc n)) (a # b # c # rest) =
     (lower_hex_digit a \<and> lower_hex_digit b \<and> c = CHR '':'' \<and> hex_pairs_joined (Suc n) rest)"
| "hex_pairs_joined n s = False"

text \<open>
  An entry of the OS list that passes the head of the loop and has the IPv4 family.
\<close>

definition inet_entry :: "ifaddrs \<Rightarrow> bool" where
  "inet_entry ifa =
     (case ifa_addr ifa of
        None \<Rightarrow> False
      | Some addr \<Rightarrow> ifa_flags ifa AND IFF_LOOPBACK = 0 \<and> sa_family addr = AF_INET)"

text \<open>
  The number of hardware-address lookups one enumeration performs: one per entry that is
  not skipped.
\<close>

definition lookups :: "os_state \<Rightarrow> nat" where
  "lookups w =
     (case getifaddrs_reply w of
        Inl e \<Rightarrow> 0
      | Inr l \<Rightarrow> length (filter (\<lambda>e. \<not> skipped e) l))"

text \<open>
  The hardware-address lookup of an entry, when it is the one made with the \<open>k\<close>-th call
  of \<open>socket\<close>: it succeeds when that call is not refused, a descriptor is free, and the
  request for the first \<open>IFNAMSIZ - 1\<close> characters of the entry's name is answered;
  \<open>lookup_mac\<close> is the formatted answer.
\<close>

definition lookup_succeeds :: "os_state \<Rightarrow> nat \<Rightarrow> ifaddrs \<Rightarrow> bool" where
  "lookup_succeeds w k e \<longleftrightarrow>
     create_error (fate w k) = None \<and>
     find (\<lambda>fd. fd_table w fd = None) (map int [0..<fd_limit w]) \<noteq> None \<and>
     (case hwaddr_reply (fate w k) (strncpy (ifa_name e) (IFNAMSIZ - 1)) of
        Inl err \<Rightarrow> False
      | Inr sa_data \<Rightarrow> True)"

definition lookup_mac :: "os_state \<Rightarrow> nat \<Rightarrow> ifaddrs \<Rightarrow> string" where
  "lookup_mac w k e =
     (case hwaddr_reply (fate w k) (strncpy (ifa_name e) (IFNAMSIZ - 1)) of
        Inl err \<Rightarrow> []
      | Inr sa_data \<Rightarrow> snprintf_mac 18 sa_data)"

text \<open>The record of an entry: its name, its address in dotted decimal, its hardware address.\<close>

definition entry_ip :: "ifaddrs \<Rightarrow> string" where
  "entry_ip e = (case ifa_addr e of None \<Rightarrow> [] | Some addr \<Rightarrow> inet_ntop (sin_addr addr))"

definition entry_record :: "os_state \<Rightarrow> nat \<Rightarrow> ifaddrs \<Rightarrow> NetworkInterface" where
  "entry_record w k e =
     \<lparr>name = ifa_name e, ip = entry_ip e, mac = lookup_mac w k e, has_internet = None\<rparr>"

text \<open>
  The entry at position \<open>i\<close> of the OS list \<open>l\<close> is looked up with the call of \<open>socket\<close>
  that follows the calls made for the entries before it, one for each of them that is
  not skipped. The entry is kept when it is an IPv4 entry that is not skipped and this
  lookup of its own succeeds; what happened to earlier entries of the same name plays
  no part.
\<close>

definition lookup_number :: "os_state \<Rightarrow> ifaddrs list \<Rightarrow> nat \<Rightarrow> nat" where
  "lookup_number w l i = sock_calls w + length (filter (\<lambda>e. \<not> skipped e) (take i l))"

definition kept :: "os_state \<Rightarrow> ifaddrs list \<Rightarrow> nat \<Rightarrow> bool" where
  "kept w l i \<longleftrightarrow> inet_entry (l ! i) \<and> lookup_succeeds w (lookup_number w l i) (l ! i)"

subsection \<open>Auxiliary notions for the proofs\<close>

text \<open>
  What one iteration of the loop appends to \<open>interfaces\<close>, read off the state at the
  start of the iteration (lemma \<open>body_char\<close> relates it to \<open>GetNetworkInfo_body\<close>).
\<close>

definition body_record :: "ifaddrs \<Rightarrow> os_state \<Rightarrow> NetworkInterface list" where
  "body_record ifa w =
     (case ifa_addr ifa of
        None \<Rightarrow> []
      | Some addr \<Rightarrow>
          if ifa_flags ifa AND IFF_LOOPBACK \<noteq> 0 \<or> sa_family addr \<noteq> AF_INET \<or>
             fst (socket_call w) < 0
          then []
          else (case hwaddr_reply (fate w (sock_calls w)) (strncpy (ifa_name ifa) (IFNAMSIZ - 1)) of
                  Inl e \<Rightarrow> []
                | Inr sa_data \<Rightarrow>
                    [\<lparr>name = ifa_name ifa, ip = inet_ntop (sin_addr addr),
                      mac = snprintf_mac 18 sa_data, has_internet = None\<rparr>]))"

text \<open>The parts of the state that an iteration leaves as they were.\<close>

definition same_env :: "os_state \<Rightarrow> os_state \<Rightarrow> bool" where
  "same_env w w' \<longleftrightarrow>
     fd_table w' = fd_table w \<and> fate w' = fate w \<and> fd_limit w' = fd_limit w \<and>
     getifaddrs_reply w' = getifaddrs_reply w \<and> cerr w' = cerr w"

section \<open>Example environments\<close>

definition lo_entry :: ifaddrs where
  "lo_entry =
     \<lparr>ifa_name = ''lo'', ifa_flags = 0x49,
      ifa_addr = Some \<lparr>sa_family = AF_INET, sin_addr = (127, 0, 0, 1)\<rparr>\<rparr>"

definition eth0_packet :: ifaddrs where
  "eth0_packet =
     \<lparr>ifa_name = ''eth0'', ifa_flags = 0x1043,
      ifa_addr = Some \<lparr>sa_family = 17, sin_addr = (0, 0, 0, 0)\<rparr>\<rparr>"

definition eth0_inet :: ifaddrs where
  "eth0_inet =
     \<lparr>ifa_name = ''eth0'', ifa_flags = 0x1043,
      ifa_addr = Some \<lparr>sa_family = AF_INET, sin_addr = (192, 168, 1, 10)\<rparr>\<rparr>"

definition eth0_alias :: ifaddrs where
  "eth0_alias =
     \<lparr>ifa_name = ''eth0'', ifa_flags = 0x1043,
      ifa_addr = Some \<lparr>sa_family = AF_INET, sin_addr = (10, 0, 0, 5)\<rparr>\<rparr>"

definition tun0_entry :: ifaddrs where
  "tun0_entry = \<lparr>ifa_name = ''tun0'', ifa_flags = 0x10d1, ifa_addr = None\<rparr>"

definition eth0_record :: NetworkInterface where
  "eth0_record =
     \<lparr>name = ''eth0'', ip = ''192.168.1.10'', mac = ''00:1a:2b:3c:4d:fe'',
      has_internet = None\<rparr>"

definition eth0_alias_record :: NetworkInterface where
  "eth0_alias_record =
     \<lparr>name = ''eth0'', ip = ''10.0.0.5'', mac = ''00:1a:2b:3c:4d:fe'',
      has_internet = None\<rparr>"

text \<open>
  A socket whose hardware-address request is answered for \<open>eth0\<close> only
  (\<open>ENODEV = 19\<close> otherwise), and whose connection attempt is in progress, becomes
  writable in time and has no pending error.
\<close>

definition example_fate :: sock_fate where
  "example_fate =
     \<lparr>create_error = None,
      hwaddr_reply =
        (\<lambda>n. if n = ''eth0''
             then Inr (\<lambda>i. if i < 6 then [0x00, 0x1a, 0x2b, 0x3c, 0x4d, 0xfe] ! i else 0)
             else Inl 19),
      connect_reply = (- 1, EINPROGRESS),
      select_reply = (\<lambda>t. (1, 0)),
      so_error = 0\<rparr>"

text \<open>
  A process with the three standard descriptors open, room for sixteen, and an OS list
  of a loopback entry, three entries of \<open>eth0\<close> (one packet-family, two IPv4) and an entry
  without address.
\<close>

definition example_os :: os_state where
  "example_os =
     \<lparr>getifaddrs_reply = Inr [lo_entry, eth0_packet, eth0_inet, eth0_alias, tun0_entry],
      inet_pton_reply = 1,
      strerror = (\<lambda>e. if e = 12 then ''Cannot allocate memory'' else ''Unknown error''),
      fate = (\<lambda>k. example_fate), sock_calls = 3,
      fd_table = [0 \<mapsto> 0, 1 \<mapsto> 1, 2 \<mapsto> 2], fd_limit = 16,
      status_flags = (\<lambda>fd. O_RDWR), errno = 0, cerr = []\<rparr>"

text \<open>The same process when \<open>eth0\<close> has one IPv4 address, and when it has only the two.\<close>

definition single_os :: os_state where
  "single_os = example_os\<lparr>getifaddrs_reply := Inr [lo_entry, eth0_packet, eth0_inet]\<rparr>"

definition alias_os :: os_state where
  "alias_os = example_os\<lparr>getifaddrs_reply := Inr [eth0_inet, eth0_alias]\<rparr>"

text \<open>
  The process with the two IPv4 entries of \<open>eth0\<close> when the second call of \<open>socket\<close>
  from now on (call number \<open>4\<close>) is refused with \<open>EMFILE\<close>.
\<close>

definition second_refused_os :: os_state where
  "second_refused_os =
     alias_os\<lparr>fate := (\<lambda>k. if k = 4 then example_fate\<lparr>create_error := Some EMFILE\<rparr>
                               else example_fate)\<rparr>"

text \<open>\<open>getifaddrs\<close> fails with \<open>ENOMEM = 12\<close>.\<close>

definition no_ifaddrs_os :: os_state where
  "no_ifaddrs_os = example_os\<lparr>getifaddrs_reply := Inl 12\<rparr>"

text \<open>
  Environments of the probe: \<open>socket\<close> refused with \<open>EMFILE\<close>, \<open>inet_pton\<close> returning
  \<open>0\<close>, \<open>select\<close> interrupted (\<open>EINTR = 4\<close>), \<open>select\<close> timing out, and a connection
  refused (\<open>ECONNREFUSED = 111\<close>) either at once or as the pending error.
\<close>

definition socket_refused_os :: os_state where
  "socket_refused_os = example_os\<lparr>fate := (\<lambda>k. example_fate\<lparr>create_error := Some EMFILE\<rparr>)\<rparr>"

definition bad_address_os :: os_state where
  "bad_address_os = example_os\<lparr>inet_pton_reply := 0\<rparr>"

definition select_failed_os :: os_state where
  "select_failed_os = example_os\<lparr>fate := (\<lambda>k. example_fate\<lparr>select_reply := (\<lambda>t. (- 1, 4))\<rparr>)\<rparr>"

definition select_timeout_os :: os_state where
  "select_timeout_os = example_os\<lparr>fate := (\<lambda>k. example_fate\<lparr>select_reply := (\<lambda>t. (0, 0))\<rparr>)\<rparr>"

definition connect_refused_os :: os_state where
  "connect_refused_os = example_os\<lparr>fate := (\<lambda>k. example_fate\<lparr>connect_reply := (- 1, 111)\<rparr>)\<rparr>"

definition pending_error_os :: os_state where
  "pending_error_os = example_os\<lparr>fate := (\<lambda>k. example_fate\<lparr>so_error := 111\<rparr>)\<rparr>"

section \<open>System calls\<close>

lemma find_free_fd:
  "find (\<lambda>fd. fd_table w fd = None) (map int [0..<fd_limit w]) = Some fd \<Longrightarrow>
     0 \<le> fd \<and> fd_table w fd = None"
  by (auto simp: find_Some_iff)

lemma socket_call_cases:
  obtains (refused) e where
      "socket_call w = (- 1, w\<lparr>sock_calls := Suc (sock_calls w), errno := e\<rparr>)"
      "create_error (fate w (sock_calls w)) = Some e \<or>
       find (\<lambda>fd. fd_table w fd = None) (map int [0..<fd_limit w]) = None"
  | (opened) fd where
      "socket_call w =
         (fd, w\<lparr>sock_calls := Suc (sock_calls w),
                fd_table := (fd_table w)(fd \<mapsto> sock_calls w),
                status_flags := (status_flags w)(fd := O_RDWR)\<rparr>)"
      "0 \<le> fd" "fd_table w fd = None"
      "create_error (fate w (sock_calls w)) = None"
      "find (\<lambda>fd. fd_table w fd = None) (map int [0..<fd_limit w]) = Some fd"
proof (cases "create_error (fate w (sock_calls w))")
  case (Some e)
  then have "socket_call w = (- 1, w\<lparr>sock_calls := Suc (sock_calls w), errno := e\<rparr>)"
    by (simp add: socket_call_def)
  with Some show ?thesis by (auto intro: refused)
next
  case None
  show ?thesis
  proof (cases "find (\<lambda>fd. fd_table w fd = None) (map int [0..<fd_limit w])")
    case N: None
    with None have "socket_call w = (- 1, w\<lparr>sock_calls := Suc (sock_calls w), errno := EMFILE\<rparr>)"
      by (simp add: socket_call_def)
    with N show ?thesis by (auto intro: refused)
  next
    case (Some fd)
    with None have "socket_call w =
         (fd, w\<lparr>sock_calls := Suc (sock_calls w),
                fd_table := (fd_table w)(fd \<mapsto> sock_calls w),
                status_flags := (status_flags w)(fd := O_RDWR)\<rparr>)"
      by (simp add: socket_call_def Let_def)
    with None Some find_free_fd [OF Some] show ?thesis by (auto intro: opened)
  qed
qed

lemma socket_call_nonneg_iff:
  "0 \<le> fst (socket_call w) \<longleftrightarrow>
     create_error (fate w (sock_calls w)) = None \<and>
     find (\<lambda>fd. fd_table w fd = None) (map int [0..<fd_limit w]) \<noteq> None"
  by (cases w rule: socket_call_cases) auto

lemma hex_digit_lower: "lower_hex_digit (hex_digit n)"
proof -
  have "n mod 16 < length ''0123456789abcdef''" by simp
  then have "''0123456789abcdef'' ! (n mod 16) \<in> set ''0123456789abcdef''"
    by (rule nth_mem)
  then show ?thesis by (simp only: hex_digit_def lower_hex_digit_def)
qed

lemma snprintf_mac_18:
  "snprintf_mac 18 m =
     [hex_digit (unat (m 0) div 16), hex_digit (unat (m 0) mod 16), CHR '':'',
      hex_digit (unat (m 1) div 16), hex_digit (unat (m 1) mod 16), CHR '':'',
      hex_digit (unat (m 2) div 16), hex_digit (unat (m 2) mod 16), CHR '':'',
      hex_digit (unat (m 3) div 16), hex_digit (unat (m 3) mod 16), CHR '':'',
      hex_digit (unat (m 4) div 16), hex_digit (unat (m 4) mod 16), CHR '':'',
      hex_digit (unat (m 5) div 16), hex_digit (unat (m 5) mod 16)]"
  by (simp add: snprintf_mac_def hex02_def)

lemma snprintf_mac_shape: "hex_pairs_joined 6 (snprintf_mac 18 m)"
proof -
  have six: "(6::nat) = Suc (Suc (Suc (Suc (Suc (Suc 0)))))" by simp
  show ?thesis
    unfolding snprintf_mac_18 six by (simp add: hex_digit_lower)
qed

lemma snprintf_mac_nonempty: "snprintf_mac 18 m \<noteq> []"
  by (simp add: snprintf_mac_18)

lemma decimal_nonempty: "decimal n \<noteq> []"
  by (subst decimal.simps) simp

lemma inet_ntop_nonempty: "inet_ntop a \<noteq> []"
  by (cases a) (simp add: inet_ntop_def decimal_nonempty)

text \<open>
  The buffer of \<open>INET_ADDRSTRLEN\<close> bytes that the program hands to \<open>inet_ntop\<close> holds
  every dotted-decimal address together with its terminating zero.
\<close>

lemma decimal_length:
  assumes "n < 256"
  shows "length (decimal n) \<le> 3"
proof -
  from assms have "n div 10 div 10 < 10" by simp
  then have 1: "length (decimal (n div 10 div 10)) = 1"
    by (subst decimal.simps) simp
  have 2: "length (decimal (n div 10)) \<le> 2"
    by (subst decimal.simps) (simp add: 1)
  show ?thesis
    by (subst decimal.simps) (use 2 in simp)
qed

lemma inet_ntop_fits: "length (inet_ntop a) < INET_ADDRSTRLEN"
proof -
  obtain b0 b1 b2 b3 where a: "a = (b0, b1, b2, b3)" by (cases a)
  have "unat b0 < 256" "unat b1 < 256" "unat b2 < 256" "unat b3 < 256"
    using unsigned_less [of b0] unsigned_less [of b1] unsigned_less [of b2] unsigned_less [of b3]
    by simp_all
  from this [THEN decimal_length] show ?thesis
    by (simp add: a inet_ntop_def INET_ADDRSTRLEN_def)
qed

subsection \<open>One iteration of the enumeration loop\<close>

lemma body_skipped: "skipped ifa \<Longrightarrow> GetNetworkInfo_body ifa interfaces w = (interfaces, w)"
  by (auto simp: skipped_def GetNetworkInfo_body_def split: option.splits)

lemma body_record_skipped: "skipped ifa \<Longrightarrow> body_record ifa w = []"
  by (auto simp: skipped_def body_record_def split: option.splits)

lemma body_refused:
  assumes "ifa_addr ifa = Some addr" "ifa_flags ifa AND IFF_LOOPBACK = 0"
    and "socket_call w = (- 1, w1)"
  shows "GetNetworkInfo_body ifa interfaces w = (interfaces, w1)"
  using assms by (simp add: GetNetworkInfo_body_def Let_def)

lemma body_opened:
  assumes "ifa_addr ifa = Some addr" "ifa_flags ifa AND IFF_LOOPBACK = 0"
    and "socket_call w = (fd, w1)" "0 \<le> fd" "fd_table w fd = None"
    and "w1 = w\<lparr>sock_calls := Suc (sock_calls w),
                fd_table := (fd_table w)(fd \<mapsto> sock_calls w),
                status_flags := (status_flags w)(fd := O_RDWR)\<rparr>"
  shows "\<exists>w2. GetNetworkInfo_body ifa interfaces w = (interfaces @ body_record ifa w, w2) \<and>
           fd_table w2 = fd_table w \<and> fate w2 = fate w \<and> fd_limit w2 = fd_limit w \<and>
           sock_calls w2 = Suc (sock_calls w) \<and> getifaddrs_reply w2 = getifaddrs_reply w \<and>
           cerr w2 = cerr w"
  using assms
  by (auto simp: GetNetworkInfo_body_def body_record_def Let_def ioctl_SIOCGIFHWADDR_def
      close_call_def inet_ntop_nonempty snprintf_mac_nonempty split: sum.splits)

lemma body_char:
  "\<exists>w2. GetNetworkInfo_body ifa interfaces w = (interfaces @ body_record ifa w, w2) \<and>
         same_env w w2 \<and>
         sock_calls w2 = sock_calls w + (if skipped ifa then 0 else 1)"
proof (cases "skipped ifa")
  case True
  then show ?thesis
    by (simp add: body_skipped body_record_skipped same_env_def)
next
  case False
  then obtain addr where a: "ifa_addr ifa = Some addr" "ifa_flags ifa AND IFF_LOOPBACK = 0"
    by (auto simp: skipped_def)
  show ?thesis
  proof (cases w rule: socket_call_cases)
    case (refused e)
    with a have "GetNetworkInfo_body ifa interfaces w =
        (interfaces, w\<lparr>sock_calls := Suc (sock_calls w), errno := e\<rparr>)"
      by (simp add: body_refused)
    moreover from refused(1) a have "body_record ifa w = []"
      by (simp add: body_record_def)
    ultimately show ?thesis using False by (simp add: same_env_def)
  next
    case (opened fd)
    from body_opened [OF a opened(1) opened(2) opened(3) refl, where interfaces = interfaces] False
    show ?thesis by (auto simp: same_env_def)
  qed
qed

lemma same_env_trans: "same_env w w1 \<Longrightarrow> same_env w1 w2 \<Longrightarrow> same_env w w2"
  by (simp add: same_env_def)

lemma loop_world:
  "same_env w (snd (GetNetworkInfo_loop l interfaces w)) \<and>
   sock_calls (snd (GetNetworkInfo_loop l interfaces w)) =
     sock_calls w + length (filter (\<lambda>e. \<not> skipped e) l)"
proof (induction l arbitrary: interfaces w)
  case Nil
  show ?case by (simp add: same_env_def)
next
  case (Cons ifa rest)
  obtain w2 where b: "GetNetworkInfo_body ifa interfaces w = (interfaces @ body_record ifa w, w2)"
      "same_env w w2" "sock_calls w2 = sock_calls w + (if skipped ifa then 0 else 1)"
    using body_char by blast
  from Cons.IH [where interfaces = "interfaces @ body_record ifa w" and w = w2] b
  show ?case by (auto intro: same_env_trans)
qed

lemma body_record_cases:
  "body_record ifa w = [] \<or>
   (\<exists>addr sa_data. ifa_addr ifa = Some addr \<and> ifa_flags ifa AND IFF_LOOPBACK = 0 \<and>
      sa_family addr = AF_INET \<and>
      body_record ifa w =
        [\<lparr>name = ifa_name ifa, ip = inet_ntop (sin_addr addr),
          mac = snprintf_mac 18 sa_data, has_internet = None\<rparr>])"
  by (auto simp: body_record_def split: option.splits sum.splits)

lemma body_record_elem:
  assumes "r \<in> set (body_record ifa w)"
  shows "\<exists>addr sa_data. ifa_addr ifa = Some addr \<and> ifa_flags ifa AND IFF_LOOPBACK = 0 \<and>
           sa_family addr = AF_INET \<and>
           r = \<lparr>name = ifa_name ifa, ip = inet_ntop (sin_addr addr),
                 mac = snprintf_mac 18 sa_data, has_internet = None\<rparr>"
  using assms body_record_cases [of ifa w] by auto

lemma body_record_complete:
  assumes "r \<in> set (body_record ifa w)"
  shows "ip r \<noteq> [] \<and> mac r \<noteq> [] \<and> hex_pairs_joined 6 (mac r)"
  using body_record_elem [OF assms]
  by (auto simp: inet_ntop_nonempty snprintf_mac_nonempty snprintf_mac_shape)

lemma loop_records:
  "r \<in> set (fst (GetNetworkInfo_loop l interfaces w)) \<Longrightarrow>
     r \<in> set interfaces \<or> (\<exists>ifa \<in> set l. \<exists>w'. r \<in> set (body_record ifa w'))"
proof (induction l arbitrary: interfaces w)
  case Nil
  then show ?case by simp
next
  case (Cons ifa rest)
  obtain w2 where b: "GetNetworkInfo_body ifa interfaces w = (interfaces @ body_record ifa w, w2)"
    using body_char by blast
  with Cons.prems have "r \<in> set (fst (GetNetworkInfo_loop rest (interfaces @ body_record ifa w) w2))"
    by simp
  from Cons.IH [OF this] show ?case by auto
qed

lemma loop_distinct:
  "distinct (map name interfaces @ map ifa_name (filter inet_entry l)) \<Longrightarrow>
     distinct (map name (fst (GetNetworkInfo_loop l interfaces w)))"
proof (induction l arbitrary: interfaces w)
  case Nil
  then show ?case by simp
next
  case (Cons ifa rest)
  obtain w2 where b: "GetNetworkInfo_body ifa interfaces w = (interfaces @ body_record ifa w, w2)"
    using body_char by blast
  have "distinct (map name (interfaces @ body_record ifa w) @ map ifa_name (filter inet_entry rest))"
  proof (cases "body_record ifa w = []")
    case True
    with Cons.prems show ?thesis by (cases "inet_entry ifa") auto
  next
    case False
    with body_record_cases [of ifa w] obtain r where
      r: "body_record ifa w = [r]" "name r = ifa_name ifa" "inet_entry ifa"
      by (auto simp: inet_entry_def)
    with Cons.prems show ?thesis by auto
  qed
  from Cons.IH [OF this, where w = w2] b show ?case by simp
qed

lemma body_record_agree:
  assumes "fd_table w1 = fd_table w2" "fd_limit w1 = fd_limit w2"
    and "create_error (fate w1 (sock_calls w1)) = create_error (fate w2 (sock_calls w2))"
    and "hwaddr_reply (fate w1 (sock_calls w1)) = hwaddr_reply (fate w2 (sock_calls w2))"
  shows "body_record ifa w1 = body_record ifa w2"
proof -
  have "0 \<le> fst (socket_call w1) \<longleftrightarrow> 0 \<le> fst (socket_call w2)"
    using assms by (simp add: socket_call_nonneg_iff)
  then have "fst (socket_call w1) < 0 \<longleftrightarrow> fst (socket_call w2) < 0"
    by linarith
  with assms(4) show ?thesis by (simp add: body_record_def split: option.splits)
qed

lemma loop_agree:
  assumes "fd_table w1 = fd_table w2" "fd_limit w1 = fd_limit w2"
    and "\<forall>k < length (filter (\<lambda>e. \<not> skipped e) l).
           create_error (fate w1 (sock_calls w1 + k)) = create_error (fate w2 (sock_calls w2 + k)) \<and>
           hwaddr_reply (fate w1 (sock_calls w1 + k)) = hwaddr_reply (fate w2 (sock_calls w2 + k))"
  shows "fst (GetNetworkInfo_loop l interfaces w1) = fst (GetNetworkInfo_loop l interfaces w2)"
  using assms
proof (induction l arbitrary: interfaces w1 w2)
  case Nil
  show ?case by simp
next
  case (Cons ifa rest)
  obtain v1 where b1: "GetNetworkInfo_body ifa interfaces w1 = (interfaces @ body_record ifa w1, v1)"
      "same_env w1 v1" "sock_calls v1 = sock_calls w1 + (if skipped ifa then 0 else 1)"
    using body_char by blast
  obtain v2 where b2: "GetNetworkInfo_body ifa interfaces w2 = (interfaces @ body_record ifa w2, v2)"
      "same_env w2 v2" "sock_calls v2 = sock_calls w2 + (if skipped ifa then 0 else 1)"
    using body_char by blast
  have rec: "body_record ifa w1 = body_record ifa w2"
  proof (cases "skipped ifa")
    case True
    then show ?thesis by (simp add: body_record_skipped)
  next
    case False
    with Cons.prems(3) have
      "create_error (fate w1 (sock_calls w1 + 0)) = create_error (fate w2 (sock_calls w2 + 0)) \<and>
       hwaddr_reply (fate w1 (sock_calls w1 + 0)) = hwaddr_reply (fate w2 (sock_calls w2 + 0))"
      by (intro Cons.prems(3) [rule_format]) simp
    with Cons.prems(1,2) show ?thesis by (intro body_record_agree) simp_all
  qed
  have t: "fd_table v1 = fd_table v2" "fd_limit v1 = fd_limit v2"
    using b1(2) b2(2) Cons.prems(1,2) by (simp_all add: same_env_def)
  have f: "fate v1 = fate w1" "fate v2 = fate w2"
    using b1(2) b2(2) by (simp_all add: same_env_def)
  have "\<forall>k < length (filter (\<lambda>e. \<not> skipped e) rest).
           create_error (fate v1 (sock_calls v1 + k)) = create_error (fate v2 (sock_calls v2 + k)) \<and>
           hwaddr_reply (fate v1 (sock_calls v1 + k)) = hwaddr_reply (fate v2 (sock_calls v2 + k))"
  proof (intro allI impI)
    fix k assume k: "k < length (filter (\<lambda>e. \<not> skipped e) rest)"
    show "create_error (fate v1 (sock_calls v1 + k)) = create_error (fate v2 (sock_calls v2 + k)) \<and>
           hwaddr_reply (fate v1 (sock_calls v1 + k)) = hwaddr_reply (fate v2 (sock_calls v2 + k))"
    proof (cases "skipped ifa")
      case True
      with k Cons.prems(3) [rule_format, of k] b1(3) b2(3) f show ?thesis by simp
    next
      case False
      with k Cons.prems(3) [rule_format, of "Suc k"] b1(3) b2(3) f show ?thesis by simp
    qed
  qed
  from Cons.IH [OF t this, where interfaces = "interfaces @ body_record ifa w1"] b1(1) b2(1) rec
  show ?case by simp
qed

lemma probe_refused:
  assumes "socket_call w = (- 1, w1)"
  shows "CheckInternetConnection timeout w =
           (False, w1\<lparr>cerr := cerr w1 @ ''Error: socket creation failed ('' @
                                   strerror w1 (errno w1) @ '')'' @ newline\<rparr>)"
  using assms by (simp add: CheckInternetConnection_def)

lemma probe_opened:
  assumes "socket_call w = (fd, w1)" "0 \<le> fd" "fd_table w fd = None"
    and "w1 = w\<lparr>sock_calls := Suc (sock_calls w),
                fd_table := (fd_table w)(fd \<mapsto> sock_calls w),
                status_flags := (status_flags w)(fd := O_RDWR)\<rparr>"
  shows "fst (CheckInternetConnection timeout w) \<longleftrightarrow>
           0 < inet_pton_reply w \<and>
           (0 \<le> fst (connect_reply (fate w (sock_calls w))) \<or>
            snd (connect_reply (fate w (sock_calls w))) = EINPROGRESS) \<and>
           0 < fst (select_reply (fate w (sock_calls w)) timeout) \<and>
           so_error (fate w (sock_calls w)) = 0"
    and "fd_table (snd (CheckInternetConnection timeout w)) = fd_table w"
  using assms
  by (auto simp: CheckInternetConnection_def Let_def fcntl_SETFL_def fcntl_GETFL_def
      connect_call_def select_call_def getsockopt_SO_ERROR_def close_call_def fun_upd_idem
      split: prod.splits if_splits)

lemma probe_char:
  "fst (CheckInternetConnection timeout w) \<longleftrightarrow>
     0 \<le> fst (socket_call w) \<and> 0 < inet_pton_reply w \<and>
     (0 \<le> fst (connect_reply (fate w (sock_calls w))) \<or>
      snd (connect_reply (fate w (sock_calls w))) = EINPROGRESS) \<and>
     0 < fst (select_reply (fate w (sock_calls w)) timeout) \<and>
     so_error (fate w (sock_calls w)) = 0"
proof (cases w rule: socket_call_cases)
  case (refused e)
  then show ?thesis by (simp add: probe_refused)
next
  case (opened fd)
  from probe_opened(1) [OF opened(1) opened(2) opened(3) refl, where timeout = timeout] opened(1,2)
  show ?thesis by simp
qed

lemma probe_fd_table: "fd_table (snd (CheckInternetConnection timeout w)) = fd_table w"
proof (cases w rule: socket_call_cases)
  case (refused e)
  then show ?thesis by (simp add: probe_refused)
next
  case (opened fd)
  from probe_opened(2) [OF opened(1) opened(2) opened(3) refl] show ?thesis .
qed

subsection \<open>The result of the loop, entry by entry\<close>

lemma body_record_kept:
  "body_record e w =
     (if inet_entry e \<and> lookup_succeeds w (sock_calls w) e
      then [entry_record w (sock_calls w) e] else [])"
proof -
  have s: "fst (socket_call w) < 0 \<longleftrightarrow>
      \<not> (create_error (fate w (sock_calls w)) = None \<and>
         find (\<lambda>fd. fd_table w fd = None) (map int [0..<fd_limit w]) \<noteq> None)"
    using socket_call_nonneg_iff [of w] by linarith
  show ?thesis
    unfolding body_record_def s
    by (auto simp: inet_entry_def lookup_succeeds_def entry_record_def entry_ip_def
        lookup_mac_def split: option.splits sum.splits)
qed

lemma kept_first:
  "kept w (e # es) 0 \<longleftrightarrow> inet_entry e \<and> lookup_succeeds w (sock_calls w) e"
  by (simp add: kept_def lookup_number_def)

lemma lookup_number_first: "lookup_number w (e # es) 0 = sock_calls w"
  by (simp add: lookup_number_def)

lemma lookup_number_Suc:
  assumes "sock_calls w2 = sock_calls w + (if skipped e then 0 else 1)"
  shows "lookup_number w (e # es) (Suc i) = lookup_number w2 es i"
  using assms by (simp add: lookup_number_def)

lemma lookup_succeeds_env:
  "same_env w w2 \<Longrightarrow> lookup_succeeds w2 k e = lookup_succeeds w k e"
  by (simp add: same_env_def lookup_succeeds_def)

lemma entry_record_env:
  "same_env w w2 \<Longrightarrow> entry_record w2 k e = entry_record w k e"
  by (simp add: same_env_def entry_record_def lookup_mac_def)

lemma kept_Suc:
  assumes "same_env w w2" "sock_calls w2 = sock_calls w + (if skipped e then 0 else 1)"
  shows "kept w (e # es) (Suc i) = kept w2 es i"
  using lookup_number_Suc [OF assms(2)] lookup_succeeds_env [OF assms(1)]
  by (simp add: kept_def)

lemma loop_kept:
  "fst (GetNetworkInfo_loop l interfaces w) =
     interfaces @
     map (\<lambda>i. entry_record w (lookup_number w l i) (l ! i)) (filter (kept w l) [0..<length l])"
proof (induction l arbitrary: interfaces w)
  case Nil
  show ?case by simp
next
  case (Cons e es)
  obtain w2 where b: "GetNetworkInfo_body e interfaces w = (interfaces @ body_record e w, w2)"
      "same_env w w2" "sock_calls w2 = sock_calls w + (if skipped e then 0 else 1)"
    using body_char by blast
  have idx: "[0..<length (e # es)] = 0 # map Suc [0..<length es]"
    by (simp add: upt_conv_Cons map_Suc_upt del: upt_Suc)
  have rest: "map (\<lambda>i. entry_record w (lookup_number w (e # es) i) ((e # es) ! i))
                (filter (kept w (e # es)) (map Suc [0..<length es])) =
              map (\<lambda>i. entry_record w2 (lookup_number w2 es i) (es ! i))
                (filter (kept w2 es) [0..<length es])"
    by (simp add: filter_map comp_def kept_Suc [OF b(2,3)] lookup_number_Suc [OF b(3)]
        entry_record_env [OF b(2)])
  have first: "body_record e w =
      map (\<lambda>i. entry_record w (lookup_number w (e # es) i) ((e # es) ! i))
        (filter (kept w (e # es)) [0])"
    by (simp add: body_record_kept kept_first lookup_number_first)
  have "fst (GetNetworkInfo_loop (e # es) interfaces w) =
        (interfaces @ body_record e w) @
        map (\<lambda>i. entry_record w2 (lookup_number w2 es i) (es ! i))
          (filter (kept w2 es) [0..<length es])"
    using Cons.IH [where interfaces = "interfaces @ body_record e w" and w = w2] b(1)
    by simp
  also have "\<dots> = interfaces @
      map (\<lambda>i. entry_record w (lookup_number w (e # es) i) ((e # es) ! i))
        (filter (kept w (e # es)) ([0] @ map Suc [0..<length es]))"
    unfolding first rest [symmetric] by (simp only: filter_append map_append append_assoc)
  finally show ?case by (simp only: idx append_Cons append_Nil)
qed


section \<open>The example environments, evaluated\<close>

lemma example_os_result: "fst (GetNetworkInfo example_os) = [eth0_record, eth0_alias_record]"
  by code_simp

lemma single_os_result: "fst (GetNetworkInfo single_os) = [eth0_record]"
  by code_simp

lemma alias_os_result: "fst (GetNetworkInfo alias_os) = [eth0_record, eth0_alias_record]"
  by code_simp

lemma example_os_socket: "fst (socket_call example_os) = 3"
  by code_simp

lemma alias_os_kept:
  "map (\<lambda>i. entry_record alias_os (lookup_number alias_os [eth0_inet, eth0_alias] i)
               ([eth0_inet, eth0_alias] ! i))
     (filter (kept alias_os [eth0_inet, eth0_alias]) [0..<length [eth0_inet, eth0_alias]]) =
   [eth0_record, eth0_alias_record]"
  by code_simp

lemma second_refused_os_kept:
  "map (\<lambda>i. entry_record second_refused_os
               (lookup_number second_refused_os [eth0_inet, eth0_alias] i)
               ([eth0_inet, eth0_alias] ! i))
     (filter (kept second_refused_os [eth0_inet, eth0_alias])
        [0..<length [eth0_inet, eth0_alias]]) =
   [eth0_record]"
  by code_simp

section \<open>The reachability probe\<close>

text \<open>
  Claim C1. The probe returns \<open>true\<close> (reachable) exactly when the connection attempt is
  initiated on a socket it could set up (\<open>connect\<close> returns a non-negative value, or
  fails with \<open>EINPROGRESS\<close>), \<open>select\<close> reports the socket writable within the timeout
  (a positive return value), and the pending error of the socket is zero. An immediate
  failure of \<open>connect\<close> other than \<open>EINPROGRESS\<close>, no writability within the bound, or a
  non-zero pending error each give \<open>false\<close>.
\<close>

theorem probe_reachable_iff:
  "fst (CheckInternetConnection timeout w) \<longleftrightarrow>
     (0 \<le> fst (socket_call w) \<and> 0 < inet_pton_reply w) \<and>
     (0 \<le> fst (connect_reply (fate w (sock_calls w))) \<or>
      snd (connect_reply (fate w (sock_calls w))) = EINPROGRESS) \<and>
     0 < fst (select_reply (fate w (sock_calls w)) timeout) \<and>
     so_error (fate w (sock_calls w)) = 0"
  using probe_char [of timeout w] by simp

theorem probe_reachable_iff_witness:
  "fst (CheckInternetConnection 2 example_os) \<and>
   fst (CheckInternetConnection 2 connect_refused_os) = False \<and>
   fst (CheckInternetConnection 2 select_timeout_os) = False \<and>
   fst (CheckInternetConnection 2 pending_error_os) = False"
  using probe_reachable_iff [of 2 example_os] probe_reachable_iff [of 2 connect_refused_os]
    probe_reachable_iff [of 2 select_timeout_os] probe_reachable_iff [of 2 pending_error_os]
    example_os_socket
  by (simp add: example_os_def example_fate_def connect_refused_os_def select_timeout_os_def
      pending_error_os_def EINPROGRESS_def)

text \<open>
  Claim C7. When the probe cannot be set up, because \<open>socket\<close> returns a negative
  descriptor or \<open>inet_pton\<close> does not return a positive value, the probe returns \<open>false\<close>,
  the value that the report renders as \<open>Unavailable\<close>.
\<close>

theorem probe_setup_failure:
  assumes "fst (socket_call w) < 0 \<or> inet_pton_reply w \<le> 0"
  shows "fst (CheckInternetConnection timeout w) = False \<and>
         render_internet (fst (CheckInternetConnection timeout w)) = ''Unavailable''"
proof -
  from assms have "\<not> fst (CheckInternetConnection timeout w)"
    by (auto simp: probe_char)
  then show ?thesis by (simp add: render_internet_def)
qed

theorem probe_setup_failure_witness:
  "fst (socket_call socket_refused_os) = - 1 \<and>
   fst (CheckInternetConnection 2 socket_refused_os) = False \<and>
   render_internet (fst (CheckInternetConnection 2 socket_refused_os)) = ''Unavailable'' \<and>
   inet_pton_reply bad_address_os = 0 \<and>
   fst (CheckInternetConnection 2 bad_address_os) = False \<and>
   render_internet (fst (CheckInternetConnection 2 bad_address_os)) = ''Unavailable''"
proof -
  have s: "fst (socket_call socket_refused_os) = - 1"
    by (simp add: socket_call_def socket_refused_os_def example_os_def example_fate_def)
  have b: "inet_pton_reply bad_address_os = 0"
    by (simp add: bad_address_os_def)
  from s have p1: "fst (socket_call socket_refused_os) < 0 \<or> inet_pton_reply socket_refused_os \<le> 0"
    by simp
  from b have p2: "fst (socket_call bad_address_os) < 0 \<or> inet_pton_reply bad_address_os \<le> 0"
    by simp
  from probe_setup_failure [OF p1, of 2] probe_setup_failure [OF p2, of 2] s b
  show ?thesis by blast
qed

text \<open>
  Claim C10. When the bounded wait itself fails (\<open>select\<close> returns a negative value), the
  probe returns \<open>false\<close>, as it does on a timeout; a \<open>true\<close> result requires a strictly
  positive return value of \<open>select\<close> and a zero pending error.
\<close>

theorem select_failure_unreachable:
  "(fst (select_reply (fate w (sock_calls w)) timeout) \<le> 0 \<longrightarrow>
      fst (CheckInternetConnection timeout w) = False) \<and>
   (fst (CheckInternetConnection timeout w) \<longrightarrow>
      0 < fst (select_reply (fate w (sock_calls w)) timeout) \<and>
      so_error (fate w (sock_calls w)) = 0)"
  by (auto simp: probe_char)

theorem select_failure_unreachable_witness:
  "fst (select_reply (fate select_failed_os (sock_calls select_failed_os)) 2) = - 1 \<and>
   fst (CheckInternetConnection 2 select_failed_os) = False \<and>
   fst (CheckInternetConnection 2 example_os) \<and>
   fst (select_reply (fate example_os (sock_calls example_os)) 2) = 1 \<and>
   so_error (fate example_os (sock_calls example_os)) = 0"
proof -
  have f: "fst (select_reply (fate select_failed_os (sock_calls select_failed_os)) 2) = - 1"
    by (simp add: select_failed_os_def example_os_def example_fate_def)
  have t: "fst (CheckInternetConnection 2 example_os)"
    by code_simp
  have v: "fst (select_reply (fate example_os (sock_calls example_os)) 2) = 1"
    "so_error (fate example_os (sock_calls example_os)) = 0"
    by (simp_all add: example_os_def example_fate_def)
  from f t v select_failure_unreachable [of select_failed_os 2]
    select_failure_unreachable [of example_os 2]
  show ?thesis by simp
qed

section \<open>The interface enumeration\<close>

text \<open>
  Claim C2. Every record that \<open>GetNetworkInfo\<close> returns has a non-empty \<open>ip\<close> and a
  non-empty \<open>mac\<close>, and its \<open>mac\<close> is six pairs of lowercase hexadecimal digits joined
  by colons.
\<close>

theorem returned_records_complete:
  "\<forall>r \<in> set (fst (GetNetworkInfo w)).
     ip r \<noteq> [] \<and> mac r \<noteq> [] \<and> hex_pairs_joined 6 (mac r)"
proof
  fix r assume r: "r \<in> set (fst (GetNetworkInfo w))"
  show "ip r \<noteq> [] \<and> mac r \<noteq> [] \<and> hex_pairs_joined 6 (mac r)"
  proof (cases "getifaddrs_reply w")
    case (Inl e)
    with r show ?thesis by (simp add: GetNetworkInfo_def)
  next
    case (Inr l)
    with r have "r \<in> set (fst (GetNetworkInfo_loop l [] w))"
      by (simp add: GetNetworkInfo_def)
    from loop_records [OF this] obtain ifa w' where "r \<in> set (body_record ifa w')"
      by auto
    then show ?thesis by (rule body_record_complete)
  qed
qed

theorem returned_records_complete_witness:
  "eth0_record \<in> set (fst (GetNetworkInfo example_os)) \<and>
   ip eth0_record = ''192.168.1.10'' \<and> mac eth0_record = ''00:1a:2b:3c:4d:fe'' \<and>
   hex_pairs_joined 6 ''00:1a:2b:3c:4d:fe''"
proof -
  have m: "eth0_record \<in> set (fst (GetNetworkInfo example_os))"
    by (simp add: example_os_result)
  from returned_records_complete [of example_os, THEN bspec, OF m] m
  show ?thesis by (simp add: eth0_record_def)
qed

text \<open>
  Claim C3, as the code has it. The code keeps no memory of the names it has seen. For
  the list \<open>l\<close> of \<open>getifaddrs\<close>, the result holds exactly one record for every entry
  that is not skipped, has the IPv4 family and whose own hardware-address lookup
  succeeds, in the order of the list; an entry is kept whether or not an earlier entry
  bore the same name. So a name with several IPv4 entries occurs once for each of them
  that is kept, and each name occurs at most once whenever the IPv4 entries of \<open>l\<close> that
  are not skipped carry pairwise distinct names.
\<close>

theorem one_record_per_kept_entry:
  assumes "getifaddrs_reply w = Inr l"
  shows "fst (GetNetworkInfo w) =
           map (\<lambda>i. entry_record w (lookup_number w l i) (l ! i))
             (filter (kept w l) [0..<length l]) \<and>
         (distinct (map ifa_name (filter inet_entry l)) \<longrightarrow>
            distinct (map name (fst (GetNetworkInfo w))))"
proof -
  from assms have g: "GetNetworkInfo w = GetNetworkInfo_loop l [] w"
    by (simp add: GetNetworkInfo_def)
  show ?thesis
    using loop_distinct [of "[]" l w] loop_kept [of l "[]" w]
    by (simp add: g)
qed

theorem one_record_per_kept_entry_witness:
  "fst (GetNetworkInfo alias_os) = [eth0_record, eth0_alias_record] \<and>
   fst (GetNetworkInfo second_refused_os) = [eth0_record] \<and>
   distinct (map name (fst (GetNetworkInfo single_os)))"
proof -
  have g1: "getifaddrs_reply alias_os = Inr [eth0_inet, eth0_alias]"
    by (simp add: alias_os_def)
  have g2: "getifaddrs_reply second_refused_os = Inr [eth0_inet, eth0_alias]"
    by (simp add: second_refused_os_def alias_os_def)
  have g3: "getifaddrs_reply single_os = Inr [lo_entry, eth0_packet, eth0_inet]"
    by (simp add: single_os_def)
  have f3: "filter inet_entry [lo_entry, eth0_packet, eth0_inet] = [eth0_inet]"
    by (simp add: inet_entry_def lo_entry_def eth0_packet_def eth0_inet_def
        IFF_LOOPBACK_def AF_INET_def)
  from one_record_per_kept_entry [OF g1, THEN conjunct1]
  have r1: "fst (GetNetworkInfo alias_os) = [eth0_record, eth0_alias_record]"
    by (simp only: alias_os_kept)
  from one_record_per_kept_entry [OF g2, THEN conjunct1]
  have r2: "fst (GetNetworkInfo second_refused_os) = [eth0_record]"
    by (simp only: second_refused_os_kept)
  from one_record_per_kept_entry [OF g3, THEN conjunct2, unfolded f3]
  have r3: "distinct (map name (fst (GetNetworkInfo single_os)))"
    by simp
  from r1 r2 r3 show ?thesis by simp
qed

text \<open>
  The claim as the specification words it fails: with two IPv4 entries for \<open>eth0\<close> in the
  OS list, both are kept and the name \<open>eth0\<close> occurs twice in the result.
\<close>

theorem names_not_unique_counterexample:
  "fst (GetNetworkInfo alias_os) = [eth0_record, eth0_alias_record] \<and>
   name eth0_record = name eth0_alias_record \<and>
   \<not> distinct (map name (fst (GetNetworkInfo alias_os)))"
  by (simp add: alias_os_result eth0_record_def eth0_alias_record_def)

text \<open>
  Claim C5. An entry of the OS list whose address pointer is null, or that carries the
  loopback flag, is skipped before anything is done for it: the iteration changes
  neither the result nor the state. Hence every returned record stems from an entry
  that has an address and does not carry the loopback flag.
\<close>

theorem loopback_entries_skipped:
  "((ifa_addr ifa = None \<or> ifa_flags ifa AND IFF_LOOPBACK \<noteq> 0) \<longrightarrow>
      GetNetworkInfo_body ifa interfaces w = (interfaces, w)) \<and>
   (\<forall>r \<in> set (fst (GetNetworkInfo w)).
      \<exists>l e addr. getifaddrs_reply w = Inr l \<and> e \<in> set l \<and>
        ifa_addr e = Some addr \<and> ifa_flags e AND IFF_LOOPBACK = 0 \<and>
        name r = ifa_name e \<and> ip r = inet_ntop (sin_addr addr))"
proof (intro conjI impI ballI)
  assume "ifa_addr ifa = None \<or> ifa_flags ifa AND IFF_LOOPBACK \<noteq> 0"
  then show "GetNetworkInfo_body ifa interfaces w = (interfaces, w)"
    by (intro body_skipped) (simp add: skipped_def)
next
  fix r assume r: "r \<in> set (fst (GetNetworkInfo w))"
  show "\<exists>l e addr. getifaddrs_reply w = Inr l \<and> e \<in> set l \<and>
        ifa_addr e = Some addr \<and> ifa_flags e AND IFF_LOOPBACK = 0 \<and>
        name r = ifa_name e \<and> ip r = inet_ntop (sin_addr addr)"
  proof (cases "getifaddrs_reply w")
    case (Inl e)
    with r show ?thesis by (simp add: GetNetworkInfo_def)
  next
    case (Inr l)
    with r have "r \<in> set (fst (GetNetworkInfo_loop l [] w))"
      by (simp add: GetNetworkInfo_def)
    from loop_records [OF this] obtain e w' where e: "e \<in> set l" "r \<in> set (body_record e w')"
      by auto
    from body_record_elem [OF e(2)] obtain addr where
      "ifa_addr e = Some addr" "ifa_flags e AND IFF_LOOPBACK = 0"
      "name r = ifa_name e" "ip r = inet_ntop (sin_addr addr)"
      by auto
    with Inr e(1) show ?thesis by blast
  qed
qed

theorem loopback_entries_skipped_witness:
  "ifa_flags lo_entry AND IFF_LOOPBACK = 8 \<and>
   GetNetworkInfo_body lo_entry [] example_os = ([], example_os) \<and>
   ifa_addr tun0_entry = None \<and>
   GetNetworkInfo_body tun0_entry [] example_os = ([], example_os) \<and>
   eth0_record \<in> set (fst (GetNetworkInfo example_os)) \<and>
   (\<exists>l e addr. getifaddrs_reply example_os = Inr l \<and> e \<in> set l \<and>
      ifa_addr e = Some addr \<and> ifa_flags e AND IFF_LOOPBACK = 0 \<and>
      name eth0_record = ifa_name e \<and> ip eth0_record = inet_ntop (sin_addr addr))"
proof -
  have lo: "ifa_flags lo_entry AND IFF_LOOPBACK = 8"
    by (simp add: lo_entry_def IFF_LOOPBACK_def)
  have tun: "ifa_addr tun0_entry = None"
    by (simp add: tun0_entry_def)
  have m: "eth0_record \<in> set (fst (GetNetworkInfo example_os))"
    by (simp add: example_os_result)
  from loopback_entries_skipped [of lo_entry "[]" example_os, THEN conjunct1] lo
  have b1: "GetNetworkInfo_body lo_entry [] example_os = ([], example_os)" by simp
  from loopback_entries_skipped [of tun0_entry "[]" example_os, THEN conjunct1] tun
  have b2: "GetNetworkInfo_body tun0_entry [] example_os = ([], example_os)" by simp
  from loopback_entries_skipped [of lo_entry "[]" example_os, THEN conjunct2, THEN bspec, OF m]
    lo tun m b1 b2
  show ?thesis by simp
qed

text \<open>
  Claim C6. When \<open>getifaddrs\<close> fails, \<open>GetNetworkInfo\<close> writes a message that names the
  failing call and the text of its \<open>errno\<close> to standard error, and returns the empty
  sequence to its caller.
\<close>

theorem getifaddrs_failure:
  assumes "getifaddrs_reply w = Inl e"
  shows "fst (GetNetworkInfo w) = [] \<and>
         cerr (snd (GetNetworkInfo w)) =
           cerr w @ ''Error: getifaddrs() failed ('' @ strerror w e @ '')'' @ newline"
  using assms by (simp add: GetNetworkInfo_def)

theorem getifaddrs_failure_witness:
  "getifaddrs_reply no_ifaddrs_os = Inl 12 \<and>
   fst (GetNetworkInfo no_ifaddrs_os) = [] \<and>
   cerr (snd (GetNetworkInfo no_ifaddrs_os)) =
     ''Error: getifaddrs() failed (Cannot allocate memory)'' @ newline"
proof -
  have g: "getifaddrs_reply no_ifaddrs_os = Inl 12"
    by (simp add: no_ifaddrs_os_def)
  from getifaddrs_failure [OF g] g show ?thesis
    by (simp add: no_ifaddrs_os_def example_os_def)
qed

text \<open>
  Claim C8. Every descriptor that \<open>socket\<close> hands out is closed again before the function
  that asked for it returns: after an iteration of the enumeration loop (whether or not
  the hardware-address request succeeds), after \<open>GetNetworkInfo\<close> and after
  \<open>CheckInternetConnection\<close> (on each of its exit paths) the table of open descriptors
  is what it was at the start.
\<close>

theorem sockets_closed:
  "fd_table (snd (GetNetworkInfo_body ifa interfaces w)) = fd_table w \<and>
   fd_table (snd (GetNetworkInfo w)) = fd_table w \<and>
   fd_table (snd (CheckInternetConnection timeout w)) = fd_table w"
proof (intro conjI)
  obtain w2 where "GetNetworkInfo_body ifa interfaces w = (interfaces @ body_record ifa w, w2)"
      "same_env w w2"
    using body_char by blast
  then show "fd_table (snd (GetNetworkInfo_body ifa interfaces w)) = fd_table w"
    by (simp add: same_env_def)
next
  show "fd_table (snd (GetNetworkInfo w)) = fd_table w"
  proof (cases "getifaddrs_reply w")
    case (Inl e)
    then show ?thesis by (simp add: GetNetworkInfo_def)
  next
    case (Inr l)
    with loop_world [of w l "[]"] show ?thesis
      by (simp add: GetNetworkInfo_def same_env_def)
  qed
next
  show "fd_table (snd (CheckInternetConnection timeout w)) = fd_table w"
    by (rule probe_fd_table)
qed

theorem sockets_closed_witness:
  "fd_table (snd (socket_call example_os)) 3 = Some 3 \<and>
   fd_table (snd (GetNetworkInfo_body eth0_inet [] example_os)) 3 = None \<and>
   fd_table (snd (GetNetworkInfo example_os)) 3 = None \<and>
   fd_table (snd (CheckInternetConnection 2 example_os)) 3 = None \<and>
   fd_table (snd (CheckInternetConnection 2 connect_refused_os)) 3 = None \<and>
   fd_table (snd (CheckInternetConnection 2 bad_address_os)) 3 = None"
proof -
  have o: "fd_table (snd (socket_call example_os)) 3 = Some 3"
    by code_simp
  have n: "fd_table example_os 3 = None" "fd_table connect_refused_os 3 = None"
    "fd_table bad_address_os 3 = None"
    by (simp_all add: example_os_def connect_refused_os_def bad_address_os_def)
  from sockets_closed [of eth0_inet "[]" example_os 2]
    sockets_closed [of eth0_inet "[]" connect_refused_os 2]
    sockets_closed [of eth0_inet "[]" bad_address_os 2] o n
  show ?thesis by simp
qed

text \<open>
  Claim C9. Two enumerations in immediate succession give the same result when the
  configuration has not changed in between: the OS list is the same, and the lookups
  of the second enumeration (creation of the socket and hardware-address request) are
  answered as the corresponding lookups of the first were.
\<close>

theorem enumeration_repeatable:
  assumes "\<forall>k < lookups w.
             create_error (fate w (sock_calls w + lookups w + k)) =
               create_error (fate w (sock_calls w + k)) \<and>
             hwaddr_reply (fate w (sock_calls w + lookups w + k)) =
               hwaddr_reply (fate w (sock_calls w + k))"
  shows "fst (GetNetworkInfo (snd (GetNetworkInfo w))) = fst (GetNetworkInfo w)"
proof (cases "getifaddrs_reply w")
  case (Inl e)
  then show ?thesis by (simp add: GetNetworkInfo_def)
next
  case (Inr l)
  define w' where "w' = snd (GetNetworkInfo_loop l [] w)"
  have env: "same_env w w'"
    and calls: "sock_calls w' = sock_calls w + length (filter (\<lambda>e. \<not> skipped e) l)"
    using loop_world [of w l "[]"] by (simp_all add: w'_def)
  from Inr have n: "lookups w = length (filter (\<lambda>e. \<not> skipped e) l)"
    by (simp add: lookups_def)
  from env Inr have g': "getifaddrs_reply w' = Inr l"
    by (simp add: same_env_def)
  have "fst (GetNetworkInfo_loop l [] w') = fst (GetNetworkInfo_loop l [] w)"
  proof (rule loop_agree)
    show "fd_table w' = fd_table w" "fd_limit w' = fd_limit w"
      using env by (simp_all add: same_env_def)
    show "\<forall>k < length (filter (\<lambda>e. \<not> skipped e) l).
           create_error (fate w' (sock_calls w' + k)) = create_error (fate w (sock_calls w + k)) \<and>
           hwaddr_reply (fate w' (sock_calls w' + k)) = hwaddr_reply (fate w (sock_calls w + k))"
      using assms env calls n by (simp add: same_env_def)
  qed
  with Inr g' show ?thesis
    by (simp add: GetNetworkInfo_def w'_def)
qed

theorem enumeration_repeatable_witness:
  "lookups example_os = 3 \<and>
   fst (GetNetworkInfo example_os) = [eth0_record, eth0_alias_record] \<and>
   fst (GetNetworkInfo (snd (GetNetworkInfo example_os))) = [eth0_record, eth0_alias_record]"
proof -
  have l: "lookups example_os = 3"
    by code_simp
  have f: "fate example_os = (\<lambda>k. example_fate)"
    by (simp add: example_os_def)
  from enumeration_repeatable [of example_os] l example_os_result
  show ?thesis by (simp add: f)
qed

end
